theory Spec2Isabelle
  imports Main
begin

section \<open>Documents, the store and the effect log\<close>

text \<open>
  Identifiers are the string form of a document key (\<open>_id\<close> and \<open>id\<close> of a
  document are the same string here). Every document carries the soft-delete flag of the
  base plugin.
\<close>

type_synonym object_id = string

record document =
  doc_id :: object_id
  created_by :: object_id
  deleted :: bool

text \<open>A company: the generic resource shape. A project adds its parent company.\<close>

record company_doc = document +
  name :: string
  is_active :: bool

record project_doc = company_doc +
  company_id :: object_id

text \<open>
  The polymorphic manager assignment. Its \<open>type\<close> is one of the two values of the data
  model, \<open>'owner'\<close> and \<open>'manager'\<close>; the controller tests \<open>manager.type === 'owner'\<close>.
\<close>

datatype assignment_type = Owner | Manager

record manager_doc = document +
  entity :: string
  entity_id :: object_id
  user_id :: object_id
  type :: assignment_type

type_synonym user_doc = document

datatype resource_type =
  Company | Project | Position | Resume | Interview | ManagerRes | Permission | Role

datatype action = Create | Read | Update | Delete | Manage

datatype event = CREATE | UPDATE | DELETE | SET_MANAGER | UNSET_MANAGER | ACTIVE | DEACTIVE

text \<open>
  The order of the side effects of one request: a lookup in a collection, a committed
  write to a collection, an event handed to the emitter (with the project it carries).
\<close>

datatype effect = Lookup string | Commit string | Emitted event object_id

record world =
  projects :: "project_doc list"
  companies :: "company_doc list"
  users :: "user_doc list"
  managers :: "manager_doc list"
  catalog :: "string \<Rightarrow> (resource_type \<times> action) list"
  log :: "effect list"

datatype error =
  NotFoundError string
  | AlreadyExists string
  | BadRequestError string
  | ForbiddenError string
  | UnauthenticatedError string
  | CastError string

text \<open>
  What \<open>AppResponse.builder(res)\<close> sends: the status when the handler sets one, the
  message key and the project passed to \<open>data\<close>.
\<close>

record response =
  status :: "nat option"
  message :: string
  data :: project_doc

text \<open>
  The parts of the application that the controller relies on and that are configured
  elsewhere: the test for a well-formed key (the validators check it "to avoid query
  errors", so it is also the test of the store's cast), the default \<open>type\<close> of the manager
  schema, the default \<open>is_active\<close> of the project schema and the key the store generates
  for the document created by this request.
\<close>

record env =
  well_formed_key :: "string \<Rightarrow> bool"
  manager_default_type :: assignment_type
  project_default_active :: bool
  new_object_id :: object_id

record principal =
  userId :: object_id
  roleId :: string

datatype strength = owner | owner_or_manager

datatype requirement = Global | Scoped strength

text \<open>
  The request as the handlers read it: \<open>req.params.id\<close> (absent on a collection route),
  \<open>req.user_id\<close>, and the fields of \<open>req.body\<close> the handlers use. \<open>credential\<close>,
  \<open>role_id\<close> and the route's declaration \<open>(resource, act, required)\<close> are what the
  authorization stages read.
\<close>

record request =
  params_id :: "object_id option"
  req_user_id :: object_id
  body_manager_id :: object_id
  body_type :: "assignment_type option"
  body_name :: string
  body_company_id :: object_id
  credential :: "principal option"
  role_id :: string
  resource :: resource_type
  act :: action
  required :: requirement

subsection \<open>Persistence primitives\<close>

text \<open>
  The model classes and the base plugin behind \<open>Project\<close>, \<open>Company\<close>, \<open>User\<close> and
  \<open>Manager\<close> are not part of the sources. Section 6 of the specification gives the
  primitives of the persistence collaborator, "load by id, excluding soft-deleted" and
  "find by composite key". The store casts a key before it queries: \<open>findById\<close> on a
  key that is not well formed throws a \<open>CastError\<close>. This is modelled in \<open>find\<close>, the
  handler whose reply to such a key is examined below; the other handlers are embedded
  for keys the store can cast.
  Every lookup and every committed write is recorded in the log, in the order of the
  handler's statements.
\<close>

definition lookup :: "string \<Rightarrow> world \<Rightarrow> world" where
  "lookup c w = w\<lparr>log := log w @ [Lookup c]\<rparr>"

definition commit :: "string \<Rightarrow> world \<Rightarrow> world" where
  "commit c w = w\<lparr>log := log w @ [Commit c]\<rparr>"

text \<open>Modelled from the spec: the domain-event collaborator (the emitter and its
  subscribers are not part of the sources); section 6 makes the notification
  fire-and-forget, so \<open>EventEmitter.emit\<close> only records the event.\<close>

definition emit :: "event \<Rightarrow> object_id \<Rightarrow> world \<Rightarrow> world" where
  "emit e i w = w\<lparr>log := log w @ [Emitted e i]\<rparr>"

text \<open>Modelled from the spec: the query primitive of the persistence collaborator; it
  returns the first document that matches and is not soft-deleted.\<close>

definition findOne :: "('a document_scheme \<Rightarrow> bool) \<Rightarrow> 'a document_scheme list \<Rightarrow> 'a document_scheme option" where
  "findOne q ds = List.find (\<lambda>d. \<not> deleted d \<and> q d) ds"

text \<open>Modelled from the spec: "load by id, excluding soft-deleted"; an absent
  \<open>req.params.id\<close> finds nothing.\<close>

definition findById :: "'a document_scheme list \<Rightarrow> object_id option \<Rightarrow> 'a document_scheme option" where
  "findById ds i = (case i of None \<Rightarrow> None | Some k \<Rightarrow> findOne (\<lambda>d. doc_id d = k) ds)"

text \<open>Modelled from the spec: \<open>save\<close> and \<open>delete\<close> of a loaded document. The document
  is the first live match of its query, and it is rewritten in place; \<open>delete\<close> is the
  soft delete of the base plugin.\<close>

fun update_first :: "('a \<Rightarrow> bool) \<Rightarrow> ('a \<Rightarrow> 'a) \<Rightarrow> 'a list \<Rightarrow> 'a list" where
  "update_first q f [] = []"
| "update_first q f (d # ds) = (if q d then f d # ds else d # update_first q f ds)"

text \<open>Modelled from the spec: the write of a loaded document to its collection: the
  first live match of the query is replaced.\<close>

definition rewrite :: "('a document_scheme \<Rightarrow> bool) \<Rightarrow> ('a document_scheme \<Rightarrow> 'a document_scheme) \<Rightarrow> 'a document_scheme list \<Rightarrow> 'a document_scheme list" where
  "rewrite q f ds = update_first (\<lambda>d. \<not> deleted d \<and> q d) f ds"

text \<open>The query object of \<open>Manager.findOne\<close> in the controller:
  \<open>{entity, entity_id, user_id}\<close>.\<close>

definition the_assignment :: "string \<Rightarrow> object_id \<Rightarrow> object_id \<Rightarrow> manager_doc \<Rightarrow> bool" where
  "the_assignment e i u m = (entity m = e \<and> entity_id m = i \<and> user_id m = u)"

section \<open>The project controller\<close>

type_synonym result = "(error + response) \<times> world"

text \<open>\<open>find\<close> (GET /projects/{id}), called \<open>find_project\<close> here; the populated paths
  are not modelled. A key that is not well formed makes \<open>Project.findById\<close> throw the
  store's \<open>CastError\<close> before any query, and the handler passes it to \<open>next\<close>.\<close>

definition find_project :: "env \<Rightarrow> world \<Rightarrow> request \<Rightarrow> result" where
  "find_project cfg w req =
     (case params_id req of
        Some k \<Rightarrow>
          if \<not> well_formed_key cfg k then (Inl (CastError k), w)
          else
            (let w1 = lookup ''projects'' w in
             case findById (projects w1) (Some k) of
               None \<Rightarrow> (Inl (NotFoundError ''project.errors.project_notfound''), w1)
             | Some project \<Rightarrow>
                 (Inr \<lparr>status = None, message = ''project.messages.project_found'',
                        data = project\<rparr>, w1))
      | None \<Rightarrow>
          (let w1 = lookup ''projects'' w in
           case findById (projects w1) None of
             None \<Rightarrow> (Inl (NotFoundError ''project.errors.project_notfound''), w1)
           | Some project \<Rightarrow>
               (Inr \<lparr>status = None, message = ''project.messages.project_found'',
                      data = project\<rparr>, w1)))"

text \<open>\<open>create\<close> (POST /projects).\<close>

definition create :: "env \<Rightarrow> world \<Rightarrow> request \<Rightarrow> result" where
  "create cfg w req =
     (let w1 = lookup ''companies'' w in
      case findOne (\<lambda>c. doc_id c = body_company_id req) (companies w1) of
        None \<Rightarrow> (Inl (NotFoundError ''company.errors.company_notfound''), w1)
      | Some company \<Rightarrow>
          if \<not> is_active company
          then (Inl (BadRequestError ''project.errors.disabled_companey_create_project_error''), w1)
          else
            let w2 = lookup ''projects'' w1 in
            case findOne (\<lambda>p. name p = body_name req \<and> company_id p = doc_id company) (projects w2) of
              Some _ \<Rightarrow> (Inl (AlreadyExists ''project.errors.project_already_attached_company''), w2)
            | None \<Rightarrow>
                let project = \<lparr>doc_id = new_object_id cfg, created_by = req_user_id req,
                               deleted = False, name = body_name req,
                               is_active = project_default_active cfg,
                               company_id = body_company_id req\<rparr>;
                    w3 = commit ''projects'' (w2\<lparr>projects := projects w2 @ [project]\<rparr>);
                    w4 = emit CREATE (doc_id project) w3
                in (Inr \<lparr>status = Some 201,
                         message = ''project.messages.project_successfully_created'',
                         data = project\<rparr>, w4))"

text \<open>\<open>manager\<close> (PATCH /projects/{id}/manager). The handler passes no \<open>type\<close> to
  \<open>Manager.create\<close>: the new assignment gets the schema's default.\<close>

definition manager :: "env \<Rightarrow> world \<Rightarrow> request \<Rightarrow> result" where
  "manager cfg w req =
     (let w1 = lookup ''projects'' w in
      case findById (projects w1) (params_id req) of
        None \<Rightarrow> (Inl (NotFoundError ''project.errors.project_notfound''), w1)
      | Some project \<Rightarrow>
          let w2 = lookup ''users'' w1 in
          case findById (users w2) (Some (body_manager_id req)) of
            None \<Rightarrow> (Inl (NotFoundError ''user.errors.user_notfound''), w2)
          | Some user \<Rightarrow>
              let w3 = lookup ''managers'' w2 in
              case findOne (the_assignment ''projects'' (doc_id project) (doc_id user)) (managers w3) of
                Some _ \<Rightarrow>
                  (Inl (BadRequestError ''project.errors.the_user_is_currently_an_manager_for_project''), w3)
              | None \<Rightarrow>
                  let m = \<lparr>doc_id = new_object_id cfg, created_by = req_user_id req,
                           deleted = False, entity = ''projects'', entity_id = doc_id project,
                           user_id = doc_id user, type = manager_default_type cfg\<rparr>;
                      w4 = commit ''managers'' (w3\<lparr>managers := managers w3 @ [m]\<rparr>);
                      w5 = emit SET_MANAGER (doc_id project) w4
                  in (Inr \<lparr>status = Some 201,
                           message = ''project.messages.project_manager_successfully_updated'',
                           data = project\<rparr>, w5))"

text \<open>\<open>deleteManager\<close> (DELETE /projects/{id}/manager). The event is emitted on the line
  before \<open>manager.delete\<close> is awaited.\<close>

definition deleteManager :: "world \<Rightarrow> request \<Rightarrow> result" where
  "deleteManager w req =
     (let w1 = lookup ''projects'' w in
      case findById (projects w1) (params_id req) of
        None \<Rightarrow> (Inl (NotFoundError ''project.errors.project_notfound''), w1)
      | Some project \<Rightarrow>
          let w2 = lookup ''users'' w1 in
          case findById (users w2) (Some (body_manager_id req)) of
            None \<Rightarrow> (Inl (NotFoundError ''user.errors.user_notfound''), w2)
          | Some user \<Rightarrow>
              let w3 = lookup ''managers'' w2;
                  q = the_assignment ''projects'' (doc_id project) (doc_id user) in
              case findOne q (managers w3) of
                None \<Rightarrow>
                  (Inl (BadRequestError ''project.errors.the_user_is_not_an_manager_for_project''), w3)
              | Some m \<Rightarrow>
                  if type m = Owner
                  then (Inl (BadRequestError ''project.errors.the_owner_manager_cannot_be_deleted''), w3)
                  else
                    let w4 = emit UNSET_MANAGER (doc_id project) w3;
                        w5 = commit ''managers''
                               (w4\<lparr>managers := rewrite q (\<lambda>d. d\<lparr>deleted := True\<rparr>) (managers w4)\<rparr>)
                    in (Inr \<lparr>status = Some 200,
                             message = ''project.messages.project_manager_successfully_deleted'',
                             data = project\<rparr>, w5))"

text \<open>\<open>active\<close> and \<open>deActive\<close> (PATCH /projects/{id}/active, /deactive).\<close>

definition active :: "world \<Rightarrow> request \<Rightarrow> result" where
  "active w req =
     (let w1 = lookup ''projects'' w in
      case findById (projects w1) (params_id req) of
        None \<Rightarrow> (Inl (NotFoundError ''project.errors.project_not_found''), w1)
      | Some project \<Rightarrow>
          if is_active project = True
          then (Inl (BadRequestError ''project.errors.project_activated_alredy''), w1)
          else
            let project' = project\<lparr>is_active := True\<rparr>;
                w2 = commit ''projects''
                       (w1\<lparr>projects := rewrite (\<lambda>d. doc_id d = doc_id project)
                                          (\<lambda>d. d\<lparr>is_active := True\<rparr>) (projects w1)\<rparr>);
                w3 = emit ACTIVE (doc_id project) w2
            in (Inr \<lparr>status = None, message = ''project.messages.project_successfuly_activated'',
                     data = project'\<rparr>, w3))"

definition deActive :: "world \<Rightarrow> request \<Rightarrow> result" where
  "deActive w req =
     (let w1 = lookup ''projects'' w in
      case findById (projects w1) (params_id req) of
        None \<Rightarrow> (Inl (NotFoundError ''project.errors.project_not_found''), w1)
      | Some project \<Rightarrow>
          if is_active project = False
          then (Inl (BadRequestError ''project.errors.project_deactivated_alredy''), w1)
          else
            let project' = project\<lparr>is_active := False\<rparr>;
                w2 = commit ''projects''
                       (w1\<lparr>projects := rewrite (\<lambda>d. doc_id d = doc_id project)
                                          (\<lambda>d. d\<lparr>is_active := False\<rparr>) (projects w1)\<rparr>);
                w3 = emit DEACTIVE (doc_id project) w2
            in (Inr \<lparr>status = None, message = ''project.messages.project_successfuly_deactivated'',
                     data = project'\<rparr>, w3))"

section \<open>The authorization stages\<close>

text \<open>
  The router mounts \<open>verifyToken\<close>, \<open>canAccess\<close>, \<open>companyAccess\<close> and \<open>projectAccess\<close>
  from the middlewares directory, which is not part of the sources. The four stages
  below follow sections 4.1 to 4.4 of the specification.
\<close>

datatype outcome = Next request | Fail error | Send response

type_synonym scope_chain = "(resource_type \<times> object_id) list"

text \<open>Modelled from the spec: the principal resolver (\<open>verifyToken\<close>, section 4.1); it
  supplies the user and the role of a verified credential to the later stages.\<close>

definition verifyToken :: "world \<Rightarrow> request \<Rightarrow> outcome \<times> world" where
  "verifyToken w req =
     (case credential req of
        None \<Rightarrow> (Fail (UnauthenticatedError ''unauthenticated''), w)
      | Some p \<Rightarrow> (Next (req\<lparr>req_user_id := userId p, role_id := roleId p\<rparr>), w))"

text \<open>Modelled from the spec: the permission catalog's query (section 4.2); the wildcard
  \<open>manage\<close> of a resource type implies every action on it.\<close>

definition hasPermission :: "(resource_type \<times> action) list \<Rightarrow> resource_type \<Rightarrow> action \<Rightarrow> bool" where
  "hasPermission permissions rt a = ((rt, a) \<in> set permissions \<or> (rt, Manage) \<in> set permissions)"

text \<open>Modelled from the spec: the role/permission gate (\<open>canAccess\<close>, section 4.2).\<close>

definition canAccess :: "world \<Rightarrow> request \<Rightarrow> outcome \<times> world" where
  "canAccess w req =
     (if hasPermission (catalog w (role_id req)) (resource req) (act req)
      then (Next req, w)
      else (Fail (ForbiddenError ''role_permission_denied''), w))"

text \<open>Modelled from the spec: the resource scope loader (section 4.3). The identifier is
  checked before any lookup; a project's chain continues with its parent company.\<close>

definition load_scope :: "env \<Rightarrow> resource_type \<Rightarrow> world \<Rightarrow> request \<Rightarrow> (error + scope_chain) \<times> world" where
  "load_scope cfg rt w req =
     (case params_id req of
        None \<Rightarrow> (Inl (BadRequestError ''invalid_identifier''), w)
      | Some k \<Rightarrow>
          if \<not> well_formed_key cfg k then (Inl (BadRequestError ''invalid_identifier''), w)
          else if rt = Project then
            (let w1 = lookup ''projects'' w in
             case findById (projects w1) (Some k) of
               None \<Rightarrow> (Inl (NotFoundError ''resource_not_found''), w1)
             | Some p \<Rightarrow>
                 let w2 = lookup ''companies'' w1 in
                 case findById (companies w2) (Some (company_id p)) of
                   None \<Rightarrow> (Inl (NotFoundError ''parent_resource_not_found''), w2)
                 | Some c \<Rightarrow> (Inr [(Project, doc_id p), (Company, doc_id c)], w2))
          else
            (let w1 = lookup ''companies'' w in
             case findById (companies w1) (Some k) of
               None \<Rightarrow> (Inl (NotFoundError ''resource_not_found''), w1)
             | Some c \<Rightarrow> (Inr [(Company, doc_id c)], w1)))"

fun entity_name :: "resource_type \<Rightarrow> string" where
  "entity_name Company = ''companies''"
| "entity_name Project = ''projects''"
| "entity_name Position = ''positions''"
| "entity_name Resume = ''resumes''"
| "entity_name Interview = ''interviews''"
| "entity_name ManagerRes = ''managers''"
| "entity_name Permission = ''permissions''"
| "entity_name Role = ''roles''"

text \<open>Modelled from the spec: \<open>find(entityType, entityId, userId)\<close> of the assignment
  store (section 4.5), the query the controller runs with \<open>Manager.findOne\<close>.\<close>

definition find_assignment :: "manager_doc list \<Rightarrow> resource_type \<Rightarrow> object_id \<Rightarrow> object_id \<Rightarrow> manager_doc option" where
  "find_assignment ms rt i u = findOne (the_assignment (entity_name rt) i u) ms"

text \<open>Modelled from the spec: the ownership evaluator (section 4.4). The chain is walked
  from the most specific level; the first level with an assignment decides. Level 0 is
  the resource itself; at a parent level only an owner counts, and only for
  \<open>owner_or_manager\<close>.\<close>

fun first_assignment :: "manager_doc list \<Rightarrow> object_id \<Rightarrow> scope_chain \<Rightarrow> (nat \<times> manager_doc) option" where
  "first_assignment ms u [] = None"
| "first_assignment ms u ((rt, i) # chain) =
     (case find_assignment ms rt i u of
        Some a \<Rightarrow> Some (0, a)
      | None \<Rightarrow>
          (case first_assignment ms u chain of
             None \<Rightarrow> None
           | Some (level, a) \<Rightarrow> Some (Suc level, a)))"

text \<open>Modelled from the spec: whether an assignment found at a level is strong enough
  (section 4.4). On the resource itself an owner satisfies both strengths and a manager
  \<open>owner_or_manager\<close>; on the parent only an owner counts, and only for
  \<open>owner_or_manager\<close>.\<close>

definition satisfies :: "nat \<Rightarrow> assignment_type \<Rightarrow> strength \<Rightarrow> bool" where
  "satisfies level t s =
     (if level = 0 then (t = Owner \<or> s = owner_or_manager)
      else (t = Owner \<and> s = owner_or_manager))"

text \<open>Modelled from the spec: the decision of the evaluator (section 4.4); \<open>None\<close>
  allows. Without any assignment the role's wildcard \<open>manage\<close> for the type of the
  resource decides.\<close>

definition evaluate :: "manager_doc list \<Rightarrow> (resource_type \<times> action) list \<Rightarrow> object_id \<Rightarrow> scope_chain \<Rightarrow> strength \<Rightarrow> error option" where
  "evaluate ms permissions u chain s =
     (case first_assignment ms u chain of
        None \<Rightarrow>
          (case chain of
             [] \<Rightarrow> Some (ForbiddenError ''not_a_manager'')
           | (rt, _) # _ \<Rightarrow>
               if (rt, Manage) \<in> set permissions then None
               else Some (ForbiddenError ''not_a_manager''))
      | Some (level, a) \<Rightarrow>
          if satisfies level (type a) s then None
          else Some (ForbiddenError ''insufficient_assignment_strength''))"

text \<open>Modelled from the spec: the scope loader followed by the evaluator (sections 4.2
  to 4.4), the body of \<open>companyAccess\<close> and \<open>projectAccess\<close>; a route whose requirement
  is \<open>global\<close> needs neither.\<close>

definition access :: "env \<Rightarrow> resource_type \<Rightarrow> world \<Rightarrow> request \<Rightarrow> outcome \<times> world" where
  "access cfg rt w req =
     (case required req of
        Global \<Rightarrow> (Next req, w)
      | Scoped s \<Rightarrow>
          (case load_scope cfg rt w req of
             (Inl e, w1) \<Rightarrow> (Fail e, w1)
           | (Inr chain, w1) \<Rightarrow>
               let w2 = lookup ''managers'' w1 in
               case evaluate (managers w2) (catalog w2 (role_id req)) (req_user_id req) chain s of
                 Some e \<Rightarrow> (Fail e, w2)
               | None \<Rightarrow> (Next req, w2)))"

text \<open>Modelled from the spec: \<open>companyAccess\<close>, the access stage for companies.\<close>

definition companyAccess :: "env \<Rightarrow> world \<Rightarrow> request \<Rightarrow> outcome \<times> world" where
  "companyAccess cfg = access cfg Company"

text \<open>Modelled from the spec: \<open>projectAccess\<close>, the access stage for projects.\<close>

definition projectAccess :: "env \<Rightarrow> world \<Rightarrow> request \<Rightarrow> outcome \<times> world" where
  "projectAccess cfg = access cfg Project"

section \<open>The router\<close>

text \<open>
  The mount points of the application router and, for each, the middleware it lists in
  order. The sub-routers themselves are given to the pipeline as a parameter.
\<close>

datatype mount =
  Auth | Users | CompaniesId | Companies | ProjectsId | Projects | PermissionsId
  | Permissions | RolesId | Roles | Resumes | Constant | Provinces | Cities | Positions

datatype middleware = VerifyToken | CanAccess | CompanyAccess | ProjectAccess | SubRouter string

fun router :: "mount \<Rightarrow> middleware list" where
  "router Auth = [SubRouter ''authRouter'']"
| "router Users = [VerifyToken, SubRouter ''userRouter'']"
| "router CompaniesId = [VerifyToken, CanAccess, CompanyAccess, SubRouter ''companyIdRouter'']"
| "router Companies = [VerifyToken, CanAccess, CompanyAccess, SubRouter ''companyRouter'']"
| "router ProjectsId = [VerifyToken, CanAccess, ProjectAccess, SubRouter ''projectIdRouter'']"
| "router Projects = [VerifyToken, CanAccess, ProjectAccess, SubRouter ''projectRouter'']"
| "router PermissionsId = [VerifyToken, CanAccess, SubRouter ''permissionIdRouter'']"
| "router Permissions = [VerifyToken, CanAccess, SubRouter ''permissionRouter'']"
| "router RolesId = [VerifyToken, CanAccess, SubRouter ''roleIdRouter'']"
| "router Roles = [VerifyToken, CanAccess, SubRouter ''roleRouter'']"
| "router Resumes = [VerifyToken, SubRouter ''resumeRouter'']"
| "router Constant = [VerifyToken, SubRouter ''constantRouter'']"
| "router Provinces = [VerifyToken, SubRouter ''provinceRouter'']"
| "router Cities = [VerifyToken, SubRouter ''cityRouter'']"
| "router Positions = [VerifyToken, SubRouter ''positionRouter'']"

type_synonym routers = "string \<Rightarrow> world \<Rightarrow> request \<Rightarrow> result"

definition run_stage :: "env \<Rightarrow> routers \<Rightarrow> middleware \<Rightarrow> world \<Rightarrow> request \<Rightarrow> outcome \<times> world" where
  "run_stage cfg sub m w req =
     (case m of
        VerifyToken \<Rightarrow> verifyToken w req
      | CanAccess \<Rightarrow> canAccess w req
      | CompanyAccess \<Rightarrow> companyAccess cfg w req
      | ProjectAccess \<Rightarrow> projectAccess cfg w req
      | SubRouter n \<Rightarrow>
          (case sub n w req of
             (Inl e, w1) \<Rightarrow> (Fail e, w1)
           | (Inr r, w1) \<Rightarrow> (Send r, w1)))"

text \<open>
  A chain runs its stages in order; a stage that does not call \<open>next\<close> ends the request.
  The first component of the result lists the stages that were entered.
\<close>

fun run_chain :: "env \<Rightarrow> routers \<Rightarrow> middleware list \<Rightarrow> world \<Rightarrow> request \<Rightarrow> middleware list \<times> outcome \<times> world" where
  "run_chain cfg sub [] w req = ([], Next req, w)"
| "run_chain cfg sub (m # ms) w req =
     (case run_stage cfg sub m w req of
        (Next req1, w1) \<Rightarrow>
          (case run_chain cfg sub ms w1 req1 of (entered, out) \<Rightarrow> (m # entered, out))
      | (out, w1) \<Rightarrow> ([m], out, w1))"

definition pipeline :: "env \<Rightarrow> routers \<Rightarrow> mount \<Rightarrow> world \<Rightarrow> request \<Rightarrow> middleware list \<times> outcome \<times> world" where
  "pipeline cfg sub mnt w req = run_chain cfg sub (router mnt) w req"

text \<open>Modelled from the spec: the validator of the identifier (the validators directory
  is not part of the sources); section 4.3 gives \<open>BadRequestError\<close>, reason
  \<open>invalid_identifier\<close>, for a key that is not well formed.\<close>

definition validate_id :: "env \<Rightarrow> world \<Rightarrow> request \<Rightarrow> outcome \<times> world" where
  "validate_id cfg w req =
     (case params_id req of
        None \<Rightarrow> (Fail (BadRequestError ''invalid_identifier''), w)
      | Some k \<Rightarrow>
          if well_formed_key cfg k then (Next req, w)
          else (Fail (BadRequestError ''invalid_identifier''), w))"

text \<open>Modelled from the spec: a route of the project identifier router (the router file
  is not part of the sources). It lists the validator before the controller method, as
  every route of the company identifier router does, for example
  \<open>.get('', CompanyValidation.find(), CompanyController.find)\<close>.\<close>

definition guarded :: "env \<Rightarrow> (world \<Rightarrow> request \<Rightarrow> result) \<Rightarrow> world \<Rightarrow> request \<Rightarrow> result" where
  "guarded cfg method w req =
     (case validate_id cfg w req of
        (Next req1, w1) \<Rightarrow> method w1 req1
      | (Fail e, w1) \<Rightarrow> (Inl e, w1)
      | (Send r, w1) \<Rightarrow> (Inr r, w1))"

text \<open>Modelled from the spec: the GET route of the project identifier router, the
  validator followed by the controller's \<open>find\<close>.\<close>

definition get_by_id :: "env \<Rightarrow> world \<Rightarrow> request \<Rightarrow> result" where
  "get_by_id cfg = guarded cfg (find_project cfg)"

section \<open>Observations and sample data\<close>

text \<open>The four collections of a world, and the effects of a request other than lookups.\<close>

definition store :: "world \<Rightarrow> project_doc list \<times> company_doc list \<times> user_doc list \<times> manager_doc list" where
  "store w = (projects w, companies w, users w, managers w)"

definition writes :: "world \<Rightarrow> effect list" where
  "writes w = filter (\<lambda>e. case e of Lookup _ \<Rightarrow> False | _ \<Rightarrow> True) (log w)"

text \<open>The live owner assignments of an entity.\<close>

definition owners :: "manager_doc list \<Rightarrow> string \<Rightarrow> object_id \<Rightarrow> manager_doc list" where
  "owners ms e i = filter (\<lambda>m. \<not> deleted m \<and> entity m = e \<and> entity_id m = i \<and> type m = Owner) ms"

text \<open>
  A small office: an active and an inactive company, an active and an inactive project
  of the first one, five users. Alice (\<open>u1\<close>) and Bob (\<open>u2\<close>) own the project \<open>site\<close>,
  Carol (\<open>u3\<close>) manages it; Alice owns the company \<open>acme\<close>, Dave (\<open>u4\<close>) owns the project
  \<open>depot\<close> only, and Erin (\<open>u5\<close>) has no assignment.
\<close>

definition acme :: company_doc where
  "acme = \<lparr>doc_id = ''c1'', created_by = ''u1'', deleted = False, name = ''Acme'', is_active = True\<rparr>"

definition dormant :: company_doc where
  "dormant = \<lparr>doc_id = ''c2'', created_by = ''u1'', deleted = False, name = ''Dormant'', is_active = False\<rparr>"

definition site :: project_doc where
  "site = \<lparr>doc_id = ''p1'', created_by = ''u1'', deleted = False, name = ''Site'',
            is_active = True, company_id = ''c1''\<rparr>"

definition depot :: project_doc where
  "depot = \<lparr>doc_id = ''p2'', created_by = ''u1'', deleted = False, name = ''Depot'',
             is_active = False, company_id = ''c1''\<rparr>"

definition person :: "object_id \<Rightarrow> user_doc" where
  "person i = \<lparr>doc_id = i, created_by = ''u1'', deleted = False\<rparr>"

definition grant :: "object_id \<Rightarrow> string \<Rightarrow> object_id \<Rightarrow> object_id \<Rightarrow> assignment_type \<Rightarrow> manager_doc" where
  "grant k e i u t = \<lparr>doc_id = k, created_by = ''u1'', deleted = False, entity = e,
                       entity_id = i, user_id = u, type = t\<rparr>"

definition roles :: "string \<Rightarrow> (resource_type \<times> action) list" where
  "roles r = (if r = ''admin'' then [(Company, Manage), (Project, Manage)]
              else if r = ''staff'' then [(Project, Read), (Project, Update), (Company, Read)]
              else [])"

definition office :: world where
  "office = \<lparr>projects = [site, depot], companies = [acme, dormant],
             users = [person ''u1'', person ''u2'', person ''u3'', person ''u4'', person ''u5''],
             managers = [grant ''m1'' ''projects'' ''p1'' ''u1'' Owner,
                         grant ''m2'' ''projects'' ''p1'' ''u2'' Owner,
                         grant ''m3'' ''projects'' ''p1'' ''u3'' Manager,
                         grant ''m4'' ''companies'' ''c1'' ''u1'' Owner,
                         grant ''m5'' ''projects'' ''p2'' ''u4'' Owner],
             catalog = roles, log = []\<rparr>"

definition settings :: env where
  "settings = \<lparr>well_formed_key = (\<lambda>k. length k = 2), manager_default_type = Manager,
               project_default_active = True, new_object_id = ''n1''\<rparr>"

text \<open>A request of Alice on the project \<open>site\<close>; the samples below vary its fields.\<close>

definition ask :: request where
  "ask = \<lparr>params_id = Some ''p1'', req_user_id = ''u1'', body_manager_id = ''u5'',
          body_type = None, body_name = ''Site'', body_company_id = ''c1'',
          credential = Some \<lparr>userId = ''u1'', roleId = ''staff''\<rparr>, role_id = ''staff'',
          resource = Project, act = Read, required = Global\<rparr>"

text \<open>
  A guest, whose role has no permission at all, asking for a project under a key that is
  not well formed.
\<close>

definition guest :: request where
  "guest = ask\<lparr>params_id := Some ''fakeID'',
               credential := Some \<lparr>userId = ''u5'', roleId = ''guest''\<rparr>\<rparr>"

section \<open>Properties of the persistence primitives\<close>

lemmas effect_defs = lookup_def commit_def emit_def

lemmas sample_defs = office_def acme_def dormant_def site_def depot_def person_def grant_def
  roles_def settings_def ask_def

lemma find_update_first:
  "List.find q ds = Some p \<Longrightarrow> \<exists>i<length ds. ds ! i = p \<and> update_first q f ds = ds[i := f p]"
proof (induction ds)
  case Nil
  then show ?case by simp
next
  case (Cons d ds)
  show ?case
  proof (cases "q d")
    case True
    with Cons.prems have "d = p" by simp
    with True have "(d # ds) ! 0 = p \<and> update_first q f (d # ds) = (d # ds)[0 := f p]" by simp
    then show ?thesis by blast
  next
    case False
    with Cons.prems have "List.find q ds = Some p" by simp
    from Cons.IH[OF this] obtain i
      where "i < length ds" "ds ! i = p" "update_first q f ds = ds[i := f p]" by blast
    with False have "Suc i < length (d # ds) \<and> (d # ds) ! Suc i = p
        \<and> update_first q f (d # ds) = (d # ds)[Suc i := f p]" by simp
    then show ?thesis by blast
  qed
qed

lemma findOne_rewrite:
  "findOne q ds = Some p \<Longrightarrow> \<exists>i<length ds. ds ! i = p \<and> rewrite q f ds = ds[i := f p]"
  unfolding findOne_def rewrite_def by (rule find_update_first)

lemma findOne_Some: "findOne q ds = Some p \<Longrightarrow> p \<in> set ds \<and> \<not> deleted p \<and> q p"
  unfolding findOne_def by (auto simp: find_Some_iff)

lemma findOne_None: "findOne q ds = None \<longleftrightarrow> (\<forall>d \<in> set ds. deleted d \<or> \<not> q d)"
  unfolding findOne_def by (auto simp: find_None_iff)

section \<open>Creating a project\<close>

text \<open>
  Claim C9. A project-create request fails with \<open>NotFoundError\<close> when no live company has
  the requested \<open>company_id\<close>, with \<open>BadRequestError\<close> when that company is inactive, and
  with \<open>AlreadyExists\<close> when the company is active and already has a project of the
  requested name. In each of the three cases the collections are unchanged, nothing is
  committed and no event is emitted.
\<close>

theorem create_failures:
  "(findOne (\<lambda>c. doc_id c = body_company_id req) (companies w) = None \<longrightarrow>
      fst (create cfg w req) = Inl (NotFoundError ''company.errors.company_notfound'')
      \<and> store (snd (create cfg w req)) = store w \<and> writes (snd (create cfg w req)) = writes w)
   \<and> (\<forall>company. findOne (\<lambda>c. doc_id c = body_company_id req) (companies w) = Some company
        \<and> \<not> is_active company \<longrightarrow>
      fst (create cfg w req) = Inl (BadRequestError ''project.errors.disabled_companey_create_project_error'')
      \<and> store (snd (create cfg w req)) = store w \<and> writes (snd (create cfg w req)) = writes w)
   \<and> (\<forall>company p. findOne (\<lambda>c. doc_id c = body_company_id req) (companies w) = Some company
        \<and> is_active company
        \<and> findOne (\<lambda>p. name p = body_name req \<and> company_id p = doc_id company) (projects w) = Some p \<longrightarrow>
      fst (create cfg w req) = Inl (AlreadyExists ''project.errors.project_already_attached_company'')
      \<and> store (snd (create cfg w req)) = store w \<and> writes (snd (create cfg w req)) = writes w)"
  by (simp add: create_def effect_defs store_def writes_def)

theorem create_failures_witness:
  "findOne (\<lambda>c. doc_id c = ''c9'') (companies office) = None
   \<and> fst (create settings office (ask\<lparr>body_company_id := ''c9''\<rparr>))
       = Inl (NotFoundError ''company.errors.company_notfound'')
   \<and> findOne (\<lambda>c. doc_id c = ''c2'') (companies office) = Some dormant
   \<and> \<not> is_active dormant
   \<and> fst (create settings office (ask\<lparr>body_company_id := ''c2''\<rparr>))
       = Inl (BadRequestError ''project.errors.disabled_companey_create_project_error'')
   \<and> findOne (\<lambda>c. doc_id c = ''c1'') (companies office) = Some acme
   \<and> is_active acme
   \<and> findOne (\<lambda>p. name p = ''Site'' \<and> company_id p = doc_id acme) (projects office) = Some site
   \<and> fst (create settings office ask)
       = Inl (AlreadyExists ''project.errors.project_already_attached_company'')
   \<and> store (snd (create settings office ask)) = store office"
proof -
  have h1: "findOne (\<lambda>c. doc_id c = ''c9'') (companies office) = None"
    by (simp add: findOne_def sample_defs)
  have h2: "findOne (\<lambda>c. doc_id c = ''c2'') (companies office) = Some dormant"
    "\<not> is_active dormant"
    by (simp_all add: findOne_def sample_defs)
  have h3: "findOne (\<lambda>c. doc_id c = ''c1'') (companies office) = Some acme" "is_active acme"
    "findOne (\<lambda>p. name p = ''Site'' \<and> company_id p = doc_id acme) (projects office) = Some site"
    by (simp_all add: findOne_def sample_defs)
  have b: "body_company_id ask = ''c1''" "body_name ask = ''Site''"
    by (simp_all add: ask_def)
  from h1 create_failures[of "ask\<lparr>body_company_id := ''c9''\<rparr>" office settings]
  have c1: "fst (create settings office (ask\<lparr>body_company_id := ''c9''\<rparr>))
       = Inl (NotFoundError ''company.errors.company_notfound'')" by simp
  from h2 create_failures[of "ask\<lparr>body_company_id := ''c2''\<rparr>" office settings]
  have c2: "fst (create settings office (ask\<lparr>body_company_id := ''c2''\<rparr>))
       = Inl (BadRequestError ''project.errors.disabled_companey_create_project_error'')" by simp
  from h3 b create_failures[of ask office settings]
  have c3: "fst (create settings office ask)
       = Inl (AlreadyExists ''project.errors.project_already_attached_company'')
     \<and> store (snd (create settings office ask)) = store office" by simp
  from h1 h2 h3 c1 c2 c3 show ?thesis by simp
qed

section \<open>Activating and deactivating a project\<close>

text \<open>
  Claim C10. For a project found by the identifier of the route: activating it when it is
  active, and deactivating it when it is inactive, fail with \<open>BadRequestError\<close> and leave
  the collections unchanged with nothing committed or emitted. Otherwise the request
  succeeds, and the collections differ from before in one place only: the project found
  is replaced by itself with \<open>is_active\<close> set.
\<close>

theorem activation_frame:
  assumes "findById (projects w) (params_id req) = Some p"
  shows "(is_active p \<longrightarrow>
            fst (active w req) = Inl (BadRequestError ''project.errors.project_activated_alredy'')
            \<and> store (snd (active w req)) = store w \<and> writes (snd (active w req)) = writes w)
       \<and> (\<not> is_active p \<longrightarrow>
            fst (deActive w req) = Inl (BadRequestError ''project.errors.project_deactivated_alredy'')
            \<and> store (snd (deActive w req)) = store w \<and> writes (snd (deActive w req)) = writes w)
       \<and> (\<not> is_active p \<longrightarrow>
            fst (active w req) = Inr \<lparr>status = None,
                 message = ''project.messages.project_successfuly_activated'',
                 data = p\<lparr>is_active := True\<rparr>\<rparr>
            \<and> (\<exists>i<length (projects w). projects w ! i = p
                 \<and> store (snd (active w req))
                     = ((projects w)[i := p\<lparr>is_active := True\<rparr>], companies w, users w, managers w)))
       \<and> (is_active p \<longrightarrow>
            fst (deActive w req) = Inr \<lparr>status = None,
                 message = ''project.messages.project_successfuly_deactivated'',
                 data = p\<lparr>is_active := False\<rparr>\<rparr>
            \<and> (\<exists>i<length (projects w). projects w ! i = p
                 \<and> store (snd (deActive w req))
                     = ((projects w)[i := p\<lparr>is_active := False\<rparr>], companies w, users w, managers w)))"
proof -
  from assms obtain k where k: "params_id req = Some k"
    and f: "findOne (\<lambda>d. doc_id d = k) (projects w) = Some p"
    by (auto simp: findById_def split: option.splits)
  from findOne_Some[OF f] have idp: "doc_id p = k" by simp
  have up: "\<exists>i<length (projects w). projects w ! i = p
              \<and> rewrite (\<lambda>d. doc_id d = doc_id p) g (projects w) = (projects w)[i := g p]" for g
    using findOne_rewrite[OF f, of g] idp by simp
  have a1: "is_active p \<longrightarrow>
            fst (active w req) = Inl (BadRequestError ''project.errors.project_activated_alredy'')
            \<and> store (snd (active w req)) = store w \<and> writes (snd (active w req)) = writes w"
    using assms by (simp add: active_def effect_defs store_def writes_def)
  have a2: "\<not> is_active p \<longrightarrow>
            fst (deActive w req) = Inl (BadRequestError ''project.errors.project_deactivated_alredy'')
            \<and> store (snd (deActive w req)) = store w \<and> writes (snd (deActive w req)) = writes w"
    using assms by (simp add: deActive_def effect_defs store_def writes_def)
  have a3: "\<not> is_active p \<longrightarrow>
            fst (active w req) = Inr \<lparr>status = None,
                 message = ''project.messages.project_successfuly_activated'',
                 data = p\<lparr>is_active := True\<rparr>\<rparr>
            \<and> (\<exists>i<length (projects w). projects w ! i = p
                 \<and> store (snd (active w req))
                     = ((projects w)[i := p\<lparr>is_active := True\<rparr>], companies w, users w, managers w))"
    using assms up[of "\<lambda>d. d\<lparr>is_active := True\<rparr>"]
    by (simp add: active_def effect_defs store_def)
  have a4: "is_active p \<longrightarrow>
            fst (deActive w req) = Inr \<lparr>status = None,
                 message = ''project.messages.project_successfuly_deactivated'',
                 data = p\<lparr>is_active := False\<rparr>\<rparr>
            \<and> (\<exists>i<length (projects w). projects w ! i = p
                 \<and> store (snd (deActive w req))
                     = ((projects w)[i := p\<lparr>is_active := False\<rparr>], companies w, users w, managers w))"
    using assms up[of "\<lambda>d. d\<lparr>is_active := False\<rparr>"]
    by (simp add: deActive_def effect_defs store_def)
  from a1 a2 a3 a4 show ?thesis by blast
qed

theorem activation_frame_witness:
  "findById (projects office) (params_id ask) = Some site \<and> is_active site
   \<and> fst (active office ask) = Inl (BadRequestError ''project.errors.project_activated_alredy'')
   \<and> store (snd (active office ask)) = store office
   \<and> findById (projects office) (params_id (ask\<lparr>params_id := Some ''p2''\<rparr>)) = Some depot
   \<and> \<not> is_active depot
   \<and> fst (deActive office (ask\<lparr>params_id := Some ''p2''\<rparr>))
       = Inl (BadRequestError ''project.errors.project_deactivated_alredy'')
   \<and> fst (active office (ask\<lparr>params_id := Some ''p2''\<rparr>))
       = Inr \<lparr>status = None, message = ''project.messages.project_successfuly_activated'',
              data = depot\<lparr>is_active := True\<rparr>\<rparr>"
proof -
  have h1: "findById (projects office) (params_id ask) = Some site" and a1: "is_active site"
    by (simp_all add: findById_def findOne_def sample_defs)
  have h2: "findById (projects office) (params_id (ask\<lparr>params_id := Some ''p2''\<rparr>)) = Some depot"
    and a2: "\<not> is_active depot"
    by (simp_all add: findById_def findOne_def sample_defs)
  from activation_frame[OF h1] a1
  have c1: "fst (active office ask) = Inl (BadRequestError ''project.errors.project_activated_alredy'')
     \<and> store (snd (active office ask)) = store office" by simp
  from activation_frame[OF h2] a2
  have c2: "fst (deActive office (ask\<lparr>params_id := Some ''p2''\<rparr>))
       = Inl (BadRequestError ''project.errors.project_deactivated_alredy'')
     \<and> fst (active office (ask\<lparr>params_id := Some ''p2''\<rparr>))
       = Inr \<lparr>status = None, message = ''project.messages.project_successfuly_activated'',
              data = depot\<lparr>is_active := True\<rparr>\<rparr>" by simp
  from h1 a1 h2 a2 c1 c2 show ?thesis by simp
qed

section \<open>The manager assignments of a project\<close>

lemma filter_list_update_neither:
  "i < length xs \<Longrightarrow> \<not> P (xs ! i) \<Longrightarrow> \<not> P y \<Longrightarrow> filter P (xs[i := y]) = filter P xs"
proof (induction xs arbitrary: i)
  case Nil
  then show ?case by simp
next
  case (Cons x xs)
  then show ?case by (cases i) simp_all
qed

lemma findOne_append_new:
  "findOne q ds = None \<Longrightarrow> \<not> deleted m \<Longrightarrow> q m \<Longrightarrow> findOne q (ds @ [m]) = Some m"
  unfolding findOne_def by (induction ds) (auto split: if_splits)

lemma rewrite_append_new:
  "findOne q ds = None \<Longrightarrow> \<not> deleted m \<Longrightarrow> q m \<Longrightarrow> rewrite q f (ds @ [m]) = ds @ [f m]"
  unfolding findOne_def rewrite_def by (induction ds) (auto split: if_splits)

lemma findOne_append_deleted:
  "findOne q ds = None \<Longrightarrow> deleted m \<Longrightarrow> findOne q (ds @ [m]) = None"
  unfolding findOne_def by (induction ds) (auto split: if_splits)

lemma found_project_id:
  "findById ds (Some k) = Some p \<Longrightarrow> doc_id p = k"
  unfolding findById_def by (auto dest: findOne_Some)

lemma manager_success:
  assumes "manager cfg w req = (Inr r, w1)"
  obtains p u where "findById (projects w) (params_id req) = Some p"
    and "findById (users w) (Some (body_manager_id req)) = Some u"
    and "findOne (the_assignment ''projects'' (doc_id p) (doc_id u)) (managers w) = None"
    and "projects w1 = projects w" and "companies w1 = companies w" and "users w1 = users w"
    and "managers w1 = managers w @ [\<lparr>doc_id = new_object_id cfg, created_by = req_user_id req,
           deleted = False, entity = ''projects'', entity_id = doc_id p,
           user_id = doc_id u, type = manager_default_type cfg\<rparr>]"
    and "log w1 = log w @ [Lookup ''projects'', Lookup ''users'', Lookup ''managers'',
           Commit ''managers'', Emitted SET_MANAGER (doc_id p)]"
  using assms
  by (auto simp: manager_def effect_defs Let_def split: option.splits)

lemma deleteManager_success:
  assumes "findById (projects w) (params_id req) = Some p"
    and "findById (users w) (Some (body_manager_id req)) = Some u"
    and "findOne (the_assignment ''projects'' (doc_id p) (doc_id u)) (managers w) = Some m"
    and "type m \<noteq> Owner"
  shows "fst (deleteManager w req)
           = Inr \<lparr>status = Some 200,
                  message = ''project.messages.project_manager_successfully_deleted'', data = p\<rparr>"
    and "\<exists>i<length (managers w). managers w ! i = m
           \<and> store (snd (deleteManager w req))
               = (projects w, companies w, users w, (managers w)[i := m\<lparr>deleted := True\<rparr>])"
    and "writes (snd (deleteManager w req))
           = writes w @ [Emitted UNSET_MANAGER (doc_id p), Commit ''managers'']"
proof -
  show "fst (deleteManager w req)
           = Inr \<lparr>status = Some 200,
                  message = ''project.messages.project_manager_successfully_deleted'', data = p\<rparr>"
    using assms by (simp add: deleteManager_def effect_defs)
  show "\<exists>i<length (managers w). managers w ! i = m
           \<and> store (snd (deleteManager w req))
               = (projects w, companies w, users w, (managers w)[i := m\<lparr>deleted := True\<rparr>])"
    using assms findOne_rewrite[OF assms(3), of "\<lambda>d. d\<lparr>deleted := True\<rparr>"]
    by (simp add: deleteManager_def effect_defs store_def)
  show "writes (snd (deleteManager w req))
           = writes w @ [Emitted UNSET_MANAGER (doc_id p), Commit ''managers'']"
    using assms by (simp add: deleteManager_def effect_defs writes_def)
qed

lemma deleteManager_owner:
  assumes "findById (projects w) (params_id req) = Some p"
    and "findById (users w) (Some (body_manager_id req)) = Some u"
    and "findOne (the_assignment ''projects'' (doc_id p) (doc_id u)) (managers w) = Some m"
    and "type m = Owner"
  shows "fst (deleteManager w req)
           = Inl (BadRequestError ''project.errors.the_owner_manager_cannot_be_deleted'')
       \<and> store (snd (deleteManager w req)) = store w
       \<and> writes (snd (deleteManager w req)) = writes w"
  using assms by (simp add: deleteManager_def effect_defs store_def writes_def)

lemma deleteManager_managers_cases:
  "managers (snd (deleteManager w req)) = managers w
   \<or> (\<exists>i m. i < length (managers w) \<and> managers w ! i = m \<and> type m \<noteq> Owner
        \<and> managers (snd (deleteManager w req)) = (managers w)[i := m\<lparr>deleted := True\<rparr>])"
proof (cases "findById (projects w) (params_id req)")
  case None
  then show ?thesis by (simp add: deleteManager_def effect_defs)
next
  case (Some p)
  note p = this
  show ?thesis
  proof (cases "findById (users w) (Some (body_manager_id req))")
    case None
    with p show ?thesis by (simp add: deleteManager_def effect_defs)
  next
    case (Some u)
    note u = this
    show ?thesis
    proof (cases "findOne (the_assignment ''projects'' (doc_id p) (doc_id u)) (managers w)")
      case None
      with p u show ?thesis by (simp add: deleteManager_def effect_defs)
    next
      case (Some m)
      show ?thesis
      proof (cases "type m = Owner")
        case True
        with p u Some show ?thesis by (simp add: deleteManager_def effect_defs)
      next
        case False
        from deleteManager_success(2)[OF p u Some False] False
        show ?thesis by (auto simp: store_def)
      qed
    qed
  qed
qed

lemma deleteManager_keeps_owners:
  "owners (managers (snd (deleteManager w req))) e i = owners (managers w) e i"
  using deleteManager_managers_cases[of w req]
  by (auto simp: owners_def filter_list_update_neither)

subsection \<open>Removing an assignment\<close>

text \<open>
  Claim C3, as stated, fails: \<open>deleteManager\<close> refuses every owner assignment, also one
  that is not the sole owner. In the office the project \<open>site\<close> has two owners, and
  removing the second one is refused with nothing changed.
\<close>

theorem sole_owner_rule_counterexample:
  "findOne (the_assignment ''projects'' ''p1'' ''u2'') (managers office)
     = Some (grant ''m2'' ''projects'' ''p1'' ''u2'' Owner)
   \<and> length (owners (managers office) ''projects'' ''p1'') = 2
   \<and> fst (deleteManager office (ask\<lparr>body_manager_id := ''u2''\<rparr>))
       = Inl (BadRequestError ''project.errors.the_owner_manager_cannot_be_deleted'')
   \<and> managers (snd (deleteManager office (ask\<lparr>body_manager_id := ''u2''\<rparr>))) = managers office"
  by (simp add: deleteManager_def findById_def findOne_def the_assignment_def owners_def
      effect_defs sample_defs)

text \<open>
  Claim C3, amended. For an existing assignment of an existing user on an existing
  project, \<open>deleteManager\<close> fails with \<open>BadRequestError\<close>
  (\<open>the_owner_manager_cannot_be_deleted\<close>) exactly when the assignment's type is
  \<open>owner\<close>, whether or not it is the sole owner, and then changes nothing. An assignment
  of any other type is removed: the request succeeds and the collections differ only in
  that assignment, now marked deleted. In every case the live owner assignments of every
  entity are the same after the request as before.
\<close>

theorem deleteManager_owner_guard:
  assumes "findById (projects w) (params_id req) = Some p"
    and "findById (users w) (Some (body_manager_id req)) = Some u"
    and "findOne (the_assignment ''projects'' (doc_id p) (doc_id u)) (managers w) = Some m"
  shows "(fst (deleteManager w req)
            = Inl (BadRequestError ''project.errors.the_owner_manager_cannot_be_deleted'')
          \<longleftrightarrow> type m = Owner)
       \<and> (type m = Owner \<longrightarrow>
            store (snd (deleteManager w req)) = store w
            \<and> writes (snd (deleteManager w req)) = writes w)
       \<and> (type m \<noteq> Owner \<longrightarrow>
            fst (deleteManager w req)
              = Inr \<lparr>status = Some 200,
                     message = ''project.messages.project_manager_successfully_deleted'', data = p\<rparr>
            \<and> (\<exists>i<length (managers w). managers w ! i = m
                 \<and> store (snd (deleteManager w req))
                     = (projects w, companies w, users w, (managers w)[i := m\<lparr>deleted := True\<rparr>])))
       \<and> owners (managers (snd (deleteManager w req))) e i = owners (managers w) e i"
proof (cases "type m = Owner")
  case True
  with deleteManager_owner[OF assms True] deleteManager_keeps_owners[of w req e i]
  show ?thesis by simp
next
  case False
  with deleteManager_success(1,2)[OF assms False] deleteManager_keeps_owners[of w req e i]
  show ?thesis by simp
qed

theorem deleteManager_owner_guard_witness:
  "findById (projects office) (params_id (ask\<lparr>body_manager_id := ''u3''\<rparr>)) = Some site
   \<and> findById (users office) (Some (body_manager_id (ask\<lparr>body_manager_id := ''u3''\<rparr>)))
       = Some (person ''u3'')
   \<and> findOne (the_assignment ''projects'' (doc_id site) (doc_id (person ''u3''))) (managers office)
       = Some (grant ''m3'' ''projects'' ''p1'' ''u3'' Manager)
   \<and> fst (deleteManager office (ask\<lparr>body_manager_id := ''u3''\<rparr>))
       = Inr \<lparr>status = Some 200,
              message = ''project.messages.project_manager_successfully_deleted'', data = site\<rparr>
   \<and> owners (managers (snd (deleteManager office (ask\<lparr>body_manager_id := ''u3''\<rparr>)))) ''projects'' ''p1''
       = owners (managers office) ''projects'' ''p1''
   \<and> findById (users office) (Some (body_manager_id (ask\<lparr>body_manager_id := ''u1''\<rparr>)))
       = Some (person ''u1'')
   \<and> findOne (the_assignment ''projects'' (doc_id site) (doc_id (person ''u1''))) (managers office)
       = Some (grant ''m1'' ''projects'' ''p1'' ''u1'' Owner)
   \<and> fst (deleteManager office (ask\<lparr>body_manager_id := ''u1''\<rparr>))
       = Inl (BadRequestError ''project.errors.the_owner_manager_cannot_be_deleted'')"
proof -
  let ?r3 = "ask\<lparr>body_manager_id := ''u3''\<rparr>" and ?r1 = "ask\<lparr>body_manager_id := ''u1''\<rparr>"
  have p3: "findById (projects office) (params_id ?r3) = Some site"
    and u3: "findById (users office) (Some (body_manager_id ?r3)) = Some (person ''u3'')"
    and m3: "findOne (the_assignment ''projects'' (doc_id site) (doc_id (person ''u3''))) (managers office)
       = Some (grant ''m3'' ''projects'' ''p1'' ''u3'' Manager)"
    by (simp_all add: findById_def findOne_def the_assignment_def sample_defs)
  have p1: "findById (projects office) (params_id ?r1) = Some site"
    and u1: "findById (users office) (Some (body_manager_id ?r1)) = Some (person ''u1'')"
    and m1: "findOne (the_assignment ''projects'' (doc_id site) (doc_id (person ''u1''))) (managers office)
       = Some (grant ''m1'' ''projects'' ''p1'' ''u1'' Owner)"
    by (simp_all add: findById_def findOne_def the_assignment_def sample_defs)
  have t: "type (grant ''m3'' ''projects'' ''p1'' ''u3'' Manager) \<noteq> Owner"
    "type (grant ''m1'' ''projects'' ''p1'' ''u1'' Owner) = Owner"
    by (simp_all add: grant_def)
  from deleteManager_owner_guard[OF p3 u3 m3, of "''projects''" "''p1''"] t
  have c3: "fst (deleteManager office ?r3)
       = Inr \<lparr>status = Some 200,
              message = ''project.messages.project_manager_successfully_deleted'', data = site\<rparr>
     \<and> owners (managers (snd (deleteManager office ?r3))) ''projects'' ''p1''
       = owners (managers office) ''projects'' ''p1''" by simp
  from deleteManager_owner_guard[OF p1 u1 m1, of "''projects''" "''p1''"] t
  have c1: "fst (deleteManager office ?r1)
       = Inl (BadRequestError ''project.errors.the_owner_manager_cannot_be_deleted'')" by simp
  from p3 u3 m3 u1 m1 c3 c1 show ?thesis by simp
qed

text \<open>
  Claim C5, as stated, fails: for an existing project and user with no assignment the
  handler throws \<open>BadRequestError\<close>, not \<open>NotFoundError\<close>.
\<close>

theorem absent_error_class_counterexample:
  "findById (projects office) (params_id ask) = Some site
   \<and> findById (users office) (Some (body_manager_id ask)) = Some (person ''u5'')
   \<and> findOne (the_assignment ''projects'' ''p1'' ''u5'') (managers office) = None
   \<and> fst (deleteManager office ask)
       = Inl (BadRequestError ''project.errors.the_user_is_not_an_manager_for_project'')
   \<and> fst (deleteManager office ask)
       \<noteq> Inl (NotFoundError ''project.errors.the_user_is_not_an_manager_for_project'')"
  by (simp add: deleteManager_def findById_def findOne_def the_assignment_def effect_defs sample_defs)

text \<open>
  Claim C5, amended. For an existing project and an existing user that has no assignment
  on it, \<open>deleteManager\<close> fails with \<open>BadRequestError\<close>
  (\<open>the_user_is_not_an_manager_for_project\<close>); the collections are unchanged, nothing is
  committed and no event is emitted.
\<close>

theorem deleteManager_absent:
  assumes "findById (projects w) (params_id req) = Some p"
    and "findById (users w) (Some (body_manager_id req)) = Some u"
    and "findOne (the_assignment ''projects'' (doc_id p) (doc_id u)) (managers w) = None"
  shows "fst (deleteManager w req)
           = Inl (BadRequestError ''project.errors.the_user_is_not_an_manager_for_project'')
       \<and> store (snd (deleteManager w req)) = store w
       \<and> writes (snd (deleteManager w req)) = writes w"
  using assms by (simp add: deleteManager_def effect_defs store_def writes_def)

theorem deleteManager_absent_witness:
  "findById (projects office) (params_id ask) = Some site
   \<and> findById (users office) (Some (body_manager_id ask)) = Some (person ''u5'')
   \<and> findOne (the_assignment ''projects'' (doc_id site) (doc_id (person ''u5''))) (managers office) = None
   \<and> fst (deleteManager office ask)
       = Inl (BadRequestError ''project.errors.the_user_is_not_an_manager_for_project'')
   \<and> store (snd (deleteManager office ask)) = store office"
proof -
  have p: "findById (projects office) (params_id ask) = Some site"
    and u: "findById (users office) (Some (body_manager_id ask)) = Some (person ''u5'')"
    and m: "findOne (the_assignment ''projects'' (doc_id site) (doc_id (person ''u5''))) (managers office) = None"
    by (simp_all add: findById_def findOne_def the_assignment_def sample_defs)
  from deleteManager_absent[OF p u m] p u m show ?thesis by simp
qed

subsection \<open>Adding an assignment\<close>

text \<open>
  Claim C4, as stated, fails: for a user that already has an assignment on the project
  the handler throws \<open>BadRequestError\<close>, not \<open>AlreadyExists\<close>.
\<close>

theorem duplicate_error_class_counterexample:
  "findOne (the_assignment ''projects'' ''p1'' ''u3'') (managers office)
     = Some (grant ''m3'' ''projects'' ''p1'' ''u3'' Manager)
   \<and> fst (manager settings office (ask\<lparr>body_manager_id := ''u3'', body_type := Some Owner\<rparr>))
       = Inl (BadRequestError ''project.errors.the_user_is_currently_an_manager_for_project'')
   \<and> fst (manager settings office (ask\<lparr>body_manager_id := ''u3'', body_type := Some Owner\<rparr>))
       \<noteq> Inl (AlreadyExists ''project.errors.the_user_is_currently_an_manager_for_project'')"
  by (simp add: manager_def findById_def findOne_def the_assignment_def effect_defs sample_defs)

text \<open>
  Claim C4, amended. For an existing project and an existing user that already has an
  assignment on it, \<open>manager\<close> fails with \<open>BadRequestError\<close>
  (\<open>the_user_is_currently_an_manager_for_project\<close>) whatever type the request asks for;
  the collections are unchanged, nothing is committed and no event is emitted.
\<close>

theorem manager_duplicate:
  assumes "findById (projects w) (params_id req) = Some p"
    and "findById (users w) (Some (body_manager_id req)) = Some u"
    and "findOne (the_assignment ''projects'' (doc_id p) (doc_id u)) (managers w) = Some m"
  shows "fst (manager cfg w (req\<lparr>body_type := t\<rparr>))
           = Inl (BadRequestError ''project.errors.the_user_is_currently_an_manager_for_project'')
       \<and> store (snd (manager cfg w (req\<lparr>body_type := t\<rparr>))) = store w
       \<and> writes (snd (manager cfg w (req\<lparr>body_type := t\<rparr>))) = writes w"
  using assms by (simp add: manager_def effect_defs store_def writes_def)

theorem manager_duplicate_witness:
  "findById (projects office) (params_id (ask\<lparr>body_manager_id := ''u3''\<rparr>)) = Some site
   \<and> findById (users office) (Some (body_manager_id (ask\<lparr>body_manager_id := ''u3''\<rparr>)))
       = Some (person ''u3'')
   \<and> findOne (the_assignment ''projects'' (doc_id site) (doc_id (person ''u3''))) (managers office)
       = Some (grant ''m3'' ''projects'' ''p1'' ''u3'' Manager)
   \<and> fst (manager settings office (ask\<lparr>body_manager_id := ''u3'', body_type := Some Owner\<rparr>))
       = Inl (BadRequestError ''project.errors.the_user_is_currently_an_manager_for_project'')
   \<and> store (snd (manager settings office (ask\<lparr>body_manager_id := ''u3'', body_type := Some Owner\<rparr>)))
       = store office"
proof -
  let ?r3 = "ask\<lparr>body_manager_id := ''u3''\<rparr>"
  have p3: "findById (projects office) (params_id ?r3) = Some site"
    and u3: "findById (users office) (Some (body_manager_id ?r3)) = Some (person ''u3'')"
    and m3: "findOne (the_assignment ''projects'' (doc_id site) (doc_id (person ''u3''))) (managers office)
       = Some (grant ''m3'' ''projects'' ''p1'' ''u3'' Manager)"
    by (simp_all add: findById_def findOne_def the_assignment_def sample_defs)
  from manager_duplicate[OF p3 u3 m3, of settings "Some Owner"] p3 u3 m3
  show ?thesis by simp
qed

subsection \<open>Round trip\<close>

text \<open>
  Claim C6, as stated, fails on the type: \<open>manager\<close> passes no type to
  \<open>Manager.create\<close>, so the assignment found afterwards has the schema's default type,
  not the one requested. Both possible defaults are shown.
\<close>

theorem requested_type_counterexample:
  "body_type (ask\<lparr>body_type := Some Owner\<rparr>) = Some Owner
   \<and> fst (manager settings office (ask\<lparr>body_type := Some Owner\<rparr>))
       = Inr \<lparr>status = Some 201,
              message = ''project.messages.project_manager_successfully_updated'', data = site\<rparr>
   \<and> map_option type (findOne (the_assignment ''projects'' ''p1'' ''u5'')
         (managers (snd (manager settings office (ask\<lparr>body_type := Some Owner\<rparr>)))))
       = Some Manager
   \<and> map_option type (findOne (the_assignment ''projects'' ''p1'' ''u5'')
         (managers (snd (manager (settings\<lparr>manager_default_type := Owner\<rparr>) office
            (ask\<lparr>body_type := Some Manager\<rparr>)))))
       = Some Owner"
  by (simp add: manager_def findById_def findOne_def the_assignment_def effect_defs sample_defs)

text \<open>
  Claim C6, amended. After a successful \<open>manager\<close> request for project \<open>i\<close> and user
  \<open>body_manager_id\<close>, the lookup of that triple returns the assignment just written:
  entity \<open>projects\<close>, that project, that user, created by the requesting user, not
  deleted, and of the schema's default type. After a successful \<open>deleteManager\<close> of the
  same triple in the resulting world, the lookup returns nothing.
\<close>

theorem assignment_round_trip:
  assumes ok: "manager cfg w req = (Inr r, w1)"
    and i: "params_id req = Some i"
    and same: "params_id req' = Some i" "body_manager_id req' = body_manager_id req"
  shows "findOne (the_assignment ''projects'' i (body_manager_id req)) (managers w1)
           = Some \<lparr>doc_id = new_object_id cfg, created_by = req_user_id req, deleted = False,
                   entity = ''projects'', entity_id = i, user_id = body_manager_id req,
                   type = manager_default_type cfg\<rparr>
       \<and> (\<forall>r2 w2. deleteManager w1 req' = (Inr r2, w2) \<longrightarrow>
            findOne (the_assignment ''projects'' i (body_manager_id req)) (managers w2) = None)"
proof -
  from ok obtain p u where p: "findById (projects w) (params_id req) = Some p"
    and u: "findById (users w) (Some (body_manager_id req)) = Some u"
    and none: "findOne (the_assignment ''projects'' (doc_id p) (doc_id u)) (managers w) = None"
    and same_store: "projects w1 = projects w" "users w1 = users w"
    and ms: "managers w1 = managers w @ [\<lparr>doc_id = new_object_id cfg, created_by = req_user_id req,
           deleted = False, entity = ''projects'', entity_id = doc_id p,
           user_id = doc_id u, type = manager_default_type cfg\<rparr>]"
    by (rule manager_success)
  from p i have idp: "doc_id p = i" by (simp add: found_project_id)
  from u have idu: "doc_id u = body_manager_id req" by (simp add: found_project_id)
  let ?q = "the_assignment ''projects'' i (body_manager_id req)"
  let ?m = "\<lparr>doc_id = new_object_id cfg, created_by = req_user_id req, deleted = False,
             entity = ''projects'', entity_id = i, user_id = body_manager_id req,
             type = manager_default_type cfg\<rparr>"
  have q: "?q ?m" "\<not> deleted ?m" by (simp_all add: the_assignment_def)
  from none idp idu have none': "findOne ?q (managers w) = None" by simp
  from ms idp idu have ms': "managers w1 = managers w @ [?m]" by simp
  have found: "findOne ?q (managers w1) = Some ?m"
    unfolding ms' using none' q by (simp add: findOne_append_new)
  have gone: "findOne ?q (managers w2) = None" if del: "deleteManager w1 req' = (Inr r2, w2)" for r2 w2
  proof -
    from p i same same_store have p1: "findById (projects w1) (params_id req') = Some p" by simp
    from u same same_store have u1: "findById (users w1) (Some (body_manager_id req')) = Some u"
      by simp
    from found idp idu
    have m1: "findOne (the_assignment ''projects'' (doc_id p) (doc_id u)) (managers w1) = Some ?m"
      by simp
    show ?thesis
    proof (cases "type ?m = Owner")
      case True
      from deleteManager_owner[OF p1 u1 m1 True] del show ?thesis by simp
    next
      case False
      from del p1 u1 m1 False idp idu
      have "managers w2 = rewrite ?q (\<lambda>d. d\<lparr>deleted := True\<rparr>) (managers w1)"
        by (auto simp: deleteManager_def effect_defs Let_def)
      also have "\<dots> = managers w @ [?m\<lparr>deleted := True\<rparr>]"
        unfolding ms' using none' q by (simp add: rewrite_append_new)
      finally show ?thesis using none' by (simp add: findOne_append_deleted)
    qed
  qed
  from found gone show ?thesis by blast
qed

theorem assignment_round_trip_witness:
  "fst (manager settings office ask)
     = Inr \<lparr>status = Some 201,
            message = ''project.messages.project_manager_successfully_updated'', data = site\<rparr>
   \<and> params_id ask = Some ''p1''
   \<and> findOne (the_assignment ''projects'' ''p1'' ''u5'') (managers (snd (manager settings office ask)))
       = Some (grant ''n1'' ''projects'' ''p1'' ''u5'' Manager)
   \<and> fst (deleteManager (snd (manager settings office ask)) ask)
       = Inr \<lparr>status = Some 200,
              message = ''project.messages.project_manager_successfully_deleted'', data = site\<rparr>
   \<and> findOne (the_assignment ''projects'' ''p1'' ''u5'')
        (managers (snd (deleteManager (snd (manager settings office ask)) ask))) = None"
proof -
  let ?r = "\<lparr>status = Some 201,
            message = ''project.messages.project_manager_successfully_updated'', data = site\<rparr>"
  let ?r2 = "\<lparr>status = Some 200,
              message = ''project.messages.project_manager_successfully_deleted'', data = site\<rparr>"
  let ?w1 = "snd (manager settings office ask)"
  let ?w2 = "snd (deleteManager ?w1 ask)"
  have a: "fst (manager settings office ask) = Inr ?r"
    by (simp add: manager_def findById_def findOne_def the_assignment_def effect_defs sample_defs)
  then have ok: "manager settings office ask = (Inr ?r, ?w1)"
    by (simp add: prod_eq_iff)
  have i: "params_id ask = Some ''p1''" and b: "body_manager_id ask = ''u5''"
    "req_user_id ask = ''u1''"
    by (simp_all add: ask_def)
  have d: "fst (deleteManager ?w1 ask) = Inr ?r2"
    by (simp add: manager_def deleteManager_def findById_def findOne_def rewrite_def
        the_assignment_def effect_defs sample_defs)
  then have del: "deleteManager ?w1 ask = (Inr ?r2, ?w2)"
    by (simp add: prod_eq_iff)
  from assignment_round_trip[OF ok i i refl] del b
  have "findOne (the_assignment ''projects'' ''p1'' ''u5'') (managers ?w1)
           = Some (grant ''n1'' ''projects'' ''p1'' ''u5'' Manager)
      \<and> findOne (the_assignment ''projects'' ''p1'' ''u5'') (managers ?w2) = None"
    by (simp add: grant_def settings_def)
  with a i d show ?thesis by simp
qed

subsection \<open>Order of commit and event\<close>

text \<open>
  Claim C7. \<open>deleteManager\<close> hands \<open>UNSET_MANAGER\<close> to the emitter before the
  deletion is committed, where \<open>manager\<close> commits first and emits afterwards. Removing
  Carol's assignment from \<open>site\<close> and assigning Erin to it show the two orders.
\<close>

theorem deleteManager_emits_before_commit:
  "fst (deleteManager office (ask\<lparr>body_manager_id := ''u3''\<rparr>))
     = Inr \<lparr>status = Some 200,
            message = ''project.messages.project_manager_successfully_deleted'', data = site\<rparr>
   \<and> writes (snd (deleteManager office (ask\<lparr>body_manager_id := ''u3''\<rparr>)))
       = [Emitted UNSET_MANAGER ''p1'', Commit ''managers'']
   \<and> writes (snd (manager settings office ask))
       = [Commit ''managers'', Emitted SET_MANAGER ''p1'']"
  by (simp add: manager_def deleteManager_def findById_def findOne_def rewrite_def
      the_assignment_def effect_defs writes_def sample_defs)

section \<open>The permission gate and the router\<close>

text \<open>
  The mounts that list the gate, and its place in them: wherever a scope loader is
  mounted, the gate stands before it.
\<close>

lemma gated_mounts:
  "CanAccess \<in> set (router mnt) \<longleftrightarrow>
     mnt \<in> {CompaniesId, Companies, ProjectsId, Projects, PermissionsId, Permissions, RolesId, Roles}"
  by (cases mnt) simp_all

lemma gate_precedes_loader:
  "router mnt = pre @ m # post \<Longrightarrow> m = CompanyAccess \<or> m = ProjectAccess \<Longrightarrow> CanAccess \<in> set pre"
  by (cases mnt) (auto simp: Cons_eq_append_conv append_eq_Cons_conv)

text \<open>
  Claim C1. On every mount that lists the gate, among them the four company and project
  mounts, the only ones with a scope loader, a request of an authenticated principal
  whose role lacks the requested permission ends with \<open>ForbiddenError\<close>
  (\<open>role_permission_denied\<close>) after the stages \<open>verifyToken\<close> and \<open>canAccess\<close> only:
  neither the scope loader nor the sub-router is entered, and the world, its lookup log
  included, is unchanged, whatever the sub-routers would do. No resource is loaded, and
  no \<open>NotFoundError\<close> can be observed.
\<close>

theorem gate_before_scope:
  assumes "CanAccess \<in> set (router mnt)"
    and "credential req = Some pr"
    and "\<not> hasPermission (catalog w (roleId pr)) (resource req) (act req)"
  shows "pipeline cfg sub mnt w req
           = ([VerifyToken, CanAccess], Fail (ForbiddenError ''role_permission_denied''), w)"
  using assms
  by (cases mnt) (simp_all add: pipeline_def run_stage_def verifyToken_def canAccess_def)

theorem gate_before_scope_witness:
  "CanAccess \<in> set (router ProjectsId)
   \<and> credential guest = Some \<lparr>userId = ''u5'', roleId = ''guest''\<rparr>
   \<and> \<not> hasPermission (catalog office (roleId \<lparr>userId = ''u5'', roleId = ''guest''\<rparr>))
         (resource guest) (act guest)
   \<and> pipeline settings (\<lambda>n. get_by_id settings) ProjectsId office guest
       = ([VerifyToken, CanAccess], Fail (ForbiddenError ''role_permission_denied''), office)
   \<and> CanAccess \<in> set (router CompaniesId)
   \<and> pipeline settings (\<lambda>n. get_by_id settings) CompaniesId office (guest\<lparr>resource := Company\<rparr>)
       = ([VerifyToken, CanAccess], Fail (ForbiddenError ''role_permission_denied''), office)"
proof -
  have g: "CanAccess \<in> set (router ProjectsId)" "CanAccess \<in> set (router CompaniesId)"
    by simp_all
  have c: "credential guest = Some \<lparr>userId = ''u5'', roleId = ''guest''\<rparr>"
    "credential (guest\<lparr>resource := Company\<rparr>) = Some \<lparr>userId = ''u5'', roleId = ''guest''\<rparr>"
    by (simp_all add: guest_def ask_def)
  have n: "\<not> hasPermission (catalog office (roleId \<lparr>userId = ''u5'', roleId = ''guest''\<rparr>))
         (resource guest) (act guest)"
    "\<not> hasPermission (catalog office (roleId \<lparr>userId = ''u5'', roleId = ''guest''\<rparr>))
         (resource (guest\<lparr>resource := Company\<rparr>)) (act (guest\<lparr>resource := Company\<rparr>))"
    by (simp_all add: hasPermission_def guest_def sample_defs)
  from gate_before_scope[OF g(1) c(1) n(1), of settings "\<lambda>n. get_by_id settings"]
    gate_before_scope[OF g(2) c(2) n(2), of settings "\<lambda>n. get_by_id settings"] g c(1) n(1)
  show ?thesis by simp
qed

section \<open>The ownership evaluator\<close>

lemma find_filter_implied:
  "(\<And>x. P x \<Longrightarrow> Q x) \<Longrightarrow> List.find P (filter Q xs) = List.find P xs"
  by (induction xs) auto

lemma find_assignment_company_filter:
  "find_assignment (filter (\<lambda>m. entity m \<noteq> ''projects'') ms) Company c u
     = find_assignment ms Company c u"
  unfolding find_assignment_def findOne_def
  by (rule find_filter_implied) (simp add: the_assignment_def)

text \<open>
  Claim C2. For a principal that holds an owner assignment on company \<open>c\<close>, and a
  project \<open>p\<close> whose scope chain continues with \<open>c\<close>: the evaluator allows
  \<open>owner_or_manager\<close> on \<open>p\<close>, and allows \<open>owner\<close> on \<open>p\<close> exactly when the principal
  holds an owner assignment on \<open>p\<close> itself. Conversely, without an assignment on \<open>c\<close> the
  decision on \<open>c\<close> is the role's wildcard alone (otherwise \<open>not_a_manager\<close>), for every
  strength, and the decision on \<open>c\<close> is the same with all project assignments removed.
\<close>

theorem ownership_hierarchy:
  "(\<forall>a. find_assignment ms Company c u = Some a \<and> type a = Owner \<longrightarrow>
       evaluate ms perms u [(Project, p), (Company, c)] owner_or_manager = None
       \<and> (evaluate ms perms u [(Project, p), (Company, c)] owner = None
            \<longleftrightarrow> (\<exists>b. find_assignment ms Project p u = Some b \<and> type b = Owner)))
   \<and> (find_assignment ms Company c u = None \<longrightarrow>
        evaluate ms perms u [(Company, c)] s
          = (if (Company, Manage) \<in> set perms then None
             else Some (ForbiddenError ''not_a_manager'')))
   \<and> evaluate (filter (\<lambda>m. entity m \<noteq> ''projects'') ms) perms u [(Company, c)] s
        = evaluate ms perms u [(Company, c)] s"
proof -
  have a: "evaluate ms perms u [(Project, p), (Company, c)] owner_or_manager = None
       \<and> (evaluate ms perms u [(Project, p), (Company, c)] owner = None
            \<longleftrightarrow> (\<exists>b. find_assignment ms Project p u = Some b \<and> type b = Owner))"
    if "find_assignment ms Company c u = Some a" "type a = Owner" for a
    using that by (cases "find_assignment ms Project p u") (simp_all add: evaluate_def satisfies_def)
  have b: "find_assignment ms Company c u = None \<longrightarrow>
        evaluate ms perms u [(Company, c)] s
          = (if (Company, Manage) \<in> set perms then None
             else Some (ForbiddenError ''not_a_manager''))"
    by (simp add: evaluate_def)
  have c: "evaluate (filter (\<lambda>m. entity m \<noteq> ''projects'') ms) perms u [(Company, c)] s
        = evaluate ms perms u [(Company, c)] s"
    by (simp add: evaluate_def find_assignment_company_filter cong: option.case_cong)
  from a b c show ?thesis by blast
qed

theorem ownership_hierarchy_witness:
  "find_assignment (managers office) Company ''c1'' ''u1''
     = Some (grant ''m4'' ''companies'' ''c1'' ''u1'' Owner)
   \<and> type (grant ''m4'' ''companies'' ''c1'' ''u1'' Owner) = Owner
   \<and> evaluate (managers office) (roles ''staff'') ''u1'' [(Project, ''p2''), (Company, ''c1'')]
       owner_or_manager = None
   \<and> find_assignment (managers office) Project ''p2'' ''u1'' = None
   \<and> evaluate (managers office) (roles ''staff'') ''u1'' [(Project, ''p2''), (Company, ''c1'')]
       owner \<noteq> None
   \<and> find_assignment (managers office) Project ''p2'' ''u4''
       = Some (grant ''m5'' ''projects'' ''p2'' ''u4'' Owner)
   \<and> find_assignment (managers office) Company ''c1'' ''u4'' = None
   \<and> evaluate (managers office) (roles ''staff'') ''u4'' [(Company, ''c1'')] owner_or_manager
       = Some (ForbiddenError ''not_a_manager'')"
proof -
  have h1: "find_assignment (managers office) Company ''c1'' ''u1''
     = Some (grant ''m4'' ''companies'' ''c1'' ''u1'' Owner)"
    and t1: "type (grant ''m4'' ''companies'' ''c1'' ''u1'' Owner) = Owner"
    and n1: "find_assignment (managers office) Project ''p2'' ''u1'' = None"
    and h4: "find_assignment (managers office) Project ''p2'' ''u4''
       = Some (grant ''m5'' ''projects'' ''p2'' ''u4'' Owner)"
    and n4: "find_assignment (managers office) Company ''c1'' ''u4'' = None"
    by (simp_all add: find_assignment_def findOne_def the_assignment_def sample_defs)
  have r: "(Company, Manage) \<notin> set (roles ''staff'')" by (simp add: roles_def)
  from ownership_hierarchy[of "managers office" "''c1''" "''u1''" "roles ''staff''" "''p2''"] h1 t1 n1
  have c1: "evaluate (managers office) (roles ''staff'') ''u1'' [(Project, ''p2''), (Company, ''c1'')]
       owner_or_manager = None
     \<and> evaluate (managers office) (roles ''staff'') ''u1'' [(Project, ''p2''), (Company, ''c1'')]
       owner \<noteq> None" by simp
  from ownership_hierarchy[of "managers office" "''c1''" "''u4''" "roles ''staff''" "''p2''" owner_or_manager]
    n4 r
  have c4: "evaluate (managers office) (roles ''staff'') ''u4'' [(Company, ''c1'')] owner_or_manager
       = Some (ForbiddenError ''not_a_manager'')" by simp
  from h1 t1 n1 h4 n4 c1 c4 show ?thesis by simp
qed

section \<open>The identifier of the route\<close>

text \<open>
  Claim C8, as stated for every request, fails: the router lists \<open>verifyToken\<close> and
  \<open>canAccess\<close> before the sub-router and its validators, so a request with a malformed
  identifier whose principal lacks the permission ends with \<open>ForbiddenError\<close>, not with
  \<open>BadRequestError\<close>.
\<close>

theorem unpermitted_malformed_counterexample:
  "params_id guest = Some ''fakeID'' \<and> \<not> well_formed_key settings ''fakeID''
   \<and> pipeline settings (\<lambda>n. get_by_id settings) ProjectsId office guest
       = ([VerifyToken, CanAccess], Fail (ForbiddenError ''role_permission_denied''), office)
   \<and> fst (snd (pipeline settings (\<lambda>n. get_by_id settings) ProjectsId office guest))
       \<noteq> Fail (BadRequestError ''invalid_identifier'')"
  by (simp add: pipeline_def run_stage_def verifyToken_def canAccess_def hasPermission_def
      guest_def sample_defs)

text \<open>
  Claim C8, amended. For a request that carries an identifier in its path:

  \<^item> when the identifier is not a well-formed key, every route that lists the validator
    before its controller method fails with \<open>BadRequestError\<close> (\<open>invalid_identifier\<close>)
    whatever the method is, and so does the scope loader; the world, its lookup log
    included, is unchanged, so no lookup was attempted. For an authenticated principal
    whose role holds the requested permission this is the reply of the whole pipeline on
    each of the four identifier mounts.
  \<^item> when the identifier is well formed and no live project has it, the routes of
    \<open>find\<close>, \<open>active\<close>, \<open>deActive\<close>, \<open>manager\<close> and \<open>deleteManager\<close> and the project scope
    loader fail with \<open>NotFoundError\<close>, and for an authenticated and permitted principal
    so does the whole pipeline on \<open>/projects/:id\<close>; likewise the company scope loader
    when no live company has it.
\<close>

theorem identifier_checked_first:
  assumes "params_id req = Some k"
  shows "(\<not> well_formed_key cfg k \<longrightarrow>
            guarded cfg h w req = (Inl (BadRequestError ''invalid_identifier''), w)
            \<and> load_scope cfg rt w req = (Inl (BadRequestError ''invalid_identifier''), w)
            \<and> (\<forall>pr mnt. credential req = Some pr
                  \<and> hasPermission (catalog w (roleId pr)) (resource req) (act req)
                  \<and> mnt \<in> {CompaniesId, ProjectsId, PermissionsId, RolesId} \<longrightarrow>
                snd (pipeline cfg (\<lambda>n. guarded cfg h) mnt w req)
                  = (Fail (BadRequestError ''invalid_identifier''), w)))
       \<and> (well_formed_key cfg k \<and> findById (projects w) (Some k) = None \<longrightarrow>
            fst (get_by_id cfg w req) = Inl (NotFoundError ''project.errors.project_notfound'')
            \<and> fst (guarded cfg active w req) = Inl (NotFoundError ''project.errors.project_not_found'')
            \<and> fst (guarded cfg deActive w req) = Inl (NotFoundError ''project.errors.project_not_found'')
            \<and> fst (guarded cfg (manager cfg) w req) = Inl (NotFoundError ''project.errors.project_notfound'')
            \<and> fst (guarded cfg deleteManager w req) = Inl (NotFoundError ''project.errors.project_notfound'')
            \<and> fst (load_scope cfg Project w req) = Inl (NotFoundError ''resource_not_found'')
            \<and> (\<forall>pr. credential req = Some pr
                  \<and> hasPermission (catalog w (roleId pr)) (resource req) (act req) \<longrightarrow>
                (\<exists>reason. fst (snd (pipeline cfg (\<lambda>n. get_by_id cfg) ProjectsId w req))
                            = Fail (NotFoundError reason))))
       \<and> (well_formed_key cfg k \<and> findById (companies w) (Some k) = None \<longrightarrow>
            fst (load_scope cfg Company w req) = Inl (NotFoundError ''resource_not_found''))"
proof -
  have bad_route: "guarded cfg h w req = (Inl (BadRequestError ''invalid_identifier''), w)"
    and bad_scope: "load_scope cfg rt w req = (Inl (BadRequestError ''invalid_identifier''), w)"
    if "\<not> well_formed_key cfg k"
    using assms that by (simp_all add: guarded_def validate_id_def load_scope_def)
  have bad: "snd (pipeline cfg (\<lambda>n. guarded cfg h) mnt w req)
              = (Fail (BadRequestError ''invalid_identifier''), w)"
    if "\<not> well_formed_key cfg k" "credential req = Some pr"
      "hasPermission (catalog w (roleId pr)) (resource req) (act req)"
      "mnt \<in> {CompaniesId, ProjectsId, PermissionsId, RolesId}" for pr mnt
  proof -
    have r: "guarded cfg h w (req\<lparr>req_user_id := userId pr, role_id := roleId pr\<rparr>)
               = (Inl (BadRequestError ''invalid_identifier''), w)"
      using assms that(1) by (simp add: guarded_def validate_id_def)
    from that(4) consider "mnt = CompaniesId" | "mnt = ProjectsId" | "mnt = PermissionsId"
      | "mnt = RolesId" by auto
    then show ?thesis
      using assms that(1,2,3) r
      by cases
        ((cases "required req"),
          simp_all add: pipeline_def run_stage_def verifyToken_def canAccess_def
            companyAccess_def projectAccess_def access_def load_scope_def)+
  qed
  have missing_route:
    "fst (get_by_id cfg w req) = Inl (NotFoundError ''project.errors.project_notfound'')"
    "fst (guarded cfg active w req) = Inl (NotFoundError ''project.errors.project_not_found'')"
    "fst (guarded cfg deActive w req) = Inl (NotFoundError ''project.errors.project_not_found'')"
    "fst (guarded cfg (manager cfg) w req) = Inl (NotFoundError ''project.errors.project_notfound'')"
    "fst (guarded cfg deleteManager w req) = Inl (NotFoundError ''project.errors.project_notfound'')"
    "fst (load_scope cfg Project w req) = Inl (NotFoundError ''resource_not_found'')"
    if "well_formed_key cfg k" "findById (projects w) (Some k) = None"
    using assms that
    by (simp_all add: get_by_id_def guarded_def validate_id_def find_project_def active_def
        deActive_def manager_def deleteManager_def load_scope_def effect_defs)
  have missing: "\<exists>reason. fst (snd (pipeline cfg (\<lambda>n. get_by_id cfg) ProjectsId w req))
                        = Fail (NotFoundError reason)"
    if "well_formed_key cfg k" "findById (projects w) (Some k) = None"
      "credential req = Some pr" "hasPermission (catalog w (roleId pr)) (resource req) (act req)"
    for pr
    using assms that
    by (cases "required req")
      (simp_all add: pipeline_def run_stage_def verifyToken_def canAccess_def projectAccess_def
        access_def load_scope_def get_by_id_def guarded_def validate_id_def find_project_def
        effect_defs)
  have missing_company: "fst (load_scope cfg Company w req) = Inl (NotFoundError ''resource_not_found'')"
    if "well_formed_key cfg k" "findById (companies w) (Some k) = None"
    using assms that by (simp add: load_scope_def effect_defs)
  from bad_route bad_scope bad missing_route missing missing_company
  show ?thesis by blast
qed

theorem identifier_checked_first_witness:
  "params_id (ask\<lparr>params_id := Some ''fakeID''\<rparr>) = Some ''fakeID''
   \<and> \<not> well_formed_key settings ''fakeID''
   \<and> guarded settings active office (ask\<lparr>params_id := Some ''fakeID''\<rparr>)
       = (Inl (BadRequestError ''invalid_identifier''), office)
   \<and> credential (ask\<lparr>params_id := Some ''fakeID''\<rparr>) = Some \<lparr>userId = ''u1'', roleId = ''staff''\<rparr>
   \<and> hasPermission (catalog office (roleId \<lparr>userId = ''u1'', roleId = ''staff''\<rparr>))
        (resource ask) (act ask)
   \<and> snd (pipeline settings (\<lambda>n. guarded settings active) ProjectsId office
              (ask\<lparr>params_id := Some ''fakeID''\<rparr>))
       = (Fail (BadRequestError ''invalid_identifier''), office)
   \<and> well_formed_key settings ''p9'' \<and> findById (projects office) (Some ''p9'') = None
   \<and> fst (get_by_id settings office (ask\<lparr>params_id := Some ''p9''\<rparr>))
       = Inl (NotFoundError ''project.errors.project_notfound'')
   \<and> well_formed_key settings ''c9'' \<and> findById (companies office) (Some ''c9'') = None
   \<and> fst (load_scope settings Company office (ask\<lparr>params_id := Some ''c9''\<rparr>))
       = Inl (NotFoundError ''resource_not_found'')"
proof -
  let ?bad = "ask\<lparr>params_id := Some ''fakeID''\<rparr>" and ?gone = "ask\<lparr>params_id := Some ''p9''\<rparr>"
    and ?firm = "ask\<lparr>params_id := Some ''c9''\<rparr>"
  have k: "params_id ?bad = Some ''fakeID''" "params_id ?gone = Some ''p9''"
    "params_id ?firm = Some ''c9''" by simp_all
  have c: "credential ?bad = Some \<lparr>userId = ''u1'', roleId = ''staff''\<rparr>"
    by (simp add: ask_def)
  have h: "hasPermission (catalog office (roleId \<lparr>userId = ''u1'', roleId = ''staff''\<rparr>))
        (resource ask) (act ask)"
    by (simp add: hasPermission_def sample_defs)
  then have h': "hasPermission (catalog office (roleId \<lparr>userId = ''u1'', roleId = ''staff''\<rparr>))
        (resource ?bad) (act ?bad)" by simp
  have wf: "\<not> well_formed_key settings ''fakeID''" "well_formed_key settings ''p9''"
    "well_formed_key settings ''c9''"
    by (simp_all add: settings_def)
  have none: "findById (projects office) (Some ''p9'') = None"
    "findById (companies office) (Some ''c9'') = None"
    by (simp_all add: findById_def findOne_def sample_defs)
  from identifier_checked_first[OF k(1), of settings active office Project] wf(1) c h'
  have c1: "guarded settings active office ?bad
       = (Inl (BadRequestError ''invalid_identifier''), office)
     \<and> snd (pipeline settings (\<lambda>n. guarded settings active) ProjectsId office ?bad)
       = (Fail (BadRequestError ''invalid_identifier''), office)" by simp
  from identifier_checked_first[OF k(2), of settings active office Project] wf(2) none(1)
  have c2: "fst (get_by_id settings office ?gone)
       = Inl (NotFoundError ''project.errors.project_notfound'')" by simp
  from identifier_checked_first[OF k(3), of settings active office Project] wf(3) none(2)
  have c3: "fst (load_scope settings Company office ?firm)
       = Inl (NotFoundError ''resource_not_found'')" by simp
  from k(1) wf none c h c1 c2 c3 show ?thesis by simp
qed

end
